theory Spec2Isabelle
  imports Complex_Main "HOL-Library.AList"
begin

section \<open>Geometry values\<close>

text \<open>
  The program works on shapely geometries. A ring is the coordinate sequence of a
  \<^verbatim>\<open>LinearRing\<close> (\<^verbatim>\<open>ring.coords\<close>); a polygon has one exterior ring and a list of
  interior rings (an empty polygon has an empty exterior). \<^verbatim>\<open>isinstance\<close> tests of the
  source become pattern matches on the constructors below.
\<close>

type_synonym coord = "real \<times> real"
type_synonym ring = "coord list"

record polygon =
  exterior :: ring
  interiors :: "ring list"

datatype geometry =
    Point coord
  | LineString "coord list"
  | LinearRing ring
  | Polygon polygon
  | MultiPoint "coord list"
  | MultiLineString "coord list list"
  | MultiPolygon "polygon list"
  | GeometryCollection "geometry list"

text \<open>
  \<^verbatim>\<open>geom.simplify(tolerance, preserve_topology=True)\<close> is shapely's: it is a parameter
  of every function that calls it, of this type (geometry, tolerance, preserve_topology).
  The tolerance is a Python float; it is modelled as an exact real number, so rounding,
  overflow to infinity and underflow to zero are outside the model: a real tolerance that
  is positive may be the float 0.0 once the search has shrunk it far enough. The call
  raises when the tolerance is negative (GEOS refuses it); on other tolerances it is
  taken to return a geometry.
\<close>

type_synonym simplify_primitive = "geometry \<Rightarrow> real \<Rightarrow> bool \<Rightarrow> geometry"

datatype error =
    ValueError string
  | KeyError string
  | AttributeError string
  | ZeroDivisionError
  | GEOSException string

section \<open>Coordinate counter\<close>

text \<open>
  \<^verbatim>\<open>
  def total_coords_count(geom):
      if isinstance(geom, Polygon):
          rings = [geom.exterior] + list(geom.interiors)
          return sum(len(ring.coords) for ring in rings)
      return 0
  \<close>
\<close>

fun total_coords_count :: "geometry \<Rightarrow> int" where
  "total_coords_count (Polygon p) =
     (let rings = [exterior p] @ interiors p
      in sum_list (map (\<lambda>ring. int (length ring)) rings))"
| "total_coords_count _ = 0"

section \<open>Adaptive simplifier\<close>

text \<open>
  The local variables of the search: \<^verbatim>\<open>simplified\<close>, \<^verbatim>\<open>tolerance\<close>, \<^verbatim>\<open>iteration\<close>.
\<close>

record search_state =
  simplified :: geometry
  tolerance :: real
  iteration :: int

text \<open>
  One pass through the body of the \<^verbatim>\<open>while\<close> loop:
  \<^verbatim>\<open>
  error_ratio = total_coords_count(simplified) / target_points
  tolerance *= min(error_ratio, 2)
  simplified = geom.simplify(tolerance, preserve_topology=True)
  iteration += 1
  \<close>
  The division is Python's true division, which raises on a zero divisor. The call of
  \<^verbatim>\<open>geom.simplify\<close> raises on a negative tolerance, which leaves the loop before
  \<^verbatim>\<open>simplified\<close> and \<^verbatim>\<open>iteration\<close> are assigned.
\<close>

definition loop_body ::
  "simplify_primitive \<Rightarrow> geometry \<Rightarrow> int \<Rightarrow> search_state \<Rightarrow> error + search_state" where
  "loop_body simplify geom target_points st =
     (if target_points = 0 then Inl ZeroDivisionError
      else
        let error_ratio = real_of_int (total_coords_count (simplified st)) / real_of_int target_points;
            tolerance' = tolerance st * min error_ratio 2
        in if tolerance' < 0 then Inl (GEOSException ''Tolerance must be non-negative'')
           else
             let simplified' = simplify geom tolerance' True
             in Inr \<lparr>simplified = simplified', tolerance = tolerance', iteration = iteration st + 1\<rparr>)"

definition loop_condition :: "int \<Rightarrow> search_state \<Rightarrow> bool" where
  "loop_condition max_iterations st \<longleftrightarrow>
     total_coords_count (simplified st) > 780 \<and> iteration st < max_iterations"

text \<open>
  The \<^verbatim>\<open>while\<close> loop. It ends because \<^verbatim>\<open>iteration\<close> grows by one in each pass and the
  condition bounds it by \<^verbatim>\<open>max_iterations\<close>.
\<close>

function search_loop ::
  "simplify_primitive \<Rightarrow> geometry \<Rightarrow> int \<Rightarrow> int \<Rightarrow> search_state \<Rightarrow> error + search_state" where
  "search_loop simplify geom target_points max_iterations st =
     (if loop_condition max_iterations st then
        (case loop_body simplify geom target_points st of
           Inl e \<Rightarrow> Inl e
         | Inr st' \<Rightarrow> search_loop simplify geom target_points max_iterations st')
      else Inr st)"
  by pat_completeness auto
termination
  by (relation "measure (\<lambda>(simplify, geom, target_points, max_iterations, st).
                  nat (max_iterations - iteration st))")
     (auto simp: loop_condition_def loop_body_def Let_def split: if_splits)

text \<open>
  The states the loop goes through, the state before the first test of the condition
  first. A pass that raises adds no state.
\<close>

function search_trace ::
  "simplify_primitive \<Rightarrow> geometry \<Rightarrow> int \<Rightarrow> int \<Rightarrow> search_state \<Rightarrow> search_state list" where
  "search_trace simplify geom target_points max_iterations st =
     st # (if loop_condition max_iterations st then
             (case loop_body simplify geom target_points st of
                Inl e \<Rightarrow> []
              | Inr st' \<Rightarrow> search_trace simplify geom target_points max_iterations st')
           else [])"
  by pat_completeness auto
termination
  by (relation "measure (\<lambda>(simplify, geom, target_points, max_iterations, st).
                  nat (max_iterations - iteration st))")
     (auto simp: loop_condition_def loop_body_def Let_def split: if_splits)

declare search_loop.simps [simp del] search_trace.simps [simp del]

text \<open>
  The state on entry to the search:
  \<^verbatim>\<open>
  tolerance = 1e-10
  simplified = geom.simplify(tolerance, preserve_topology=True)
  iteration = 0
  \<close>
\<close>

definition initial_state :: "simplify_primitive \<Rightarrow> geometry \<Rightarrow> search_state" where
  "initial_state simplify geom =
     (let tolerance = 1 / 10 ^ 10;
          simplified = simplify geom tolerance True
      in \<lparr>simplified = simplified, tolerance = tolerance, iteration = 0\<rparr>)"

text \<open>
  \<^verbatim>\<open>
  def adaptive_polygon_simplify(geom, target_points=780, max_iterations=400):
      original = total_coords_count(geom)
      if original <= target_points:
          return geom, 0.0, original, original
      ... the search ...
      simplified_n = total_coords_count(simplified)
      return simplified, tolerance, original, simplified_n
  \<close>
\<close>

definition adaptive_polygon_simplify ::
  "simplify_primitive \<Rightarrow> geometry \<Rightarrow> int \<Rightarrow> int \<Rightarrow> error + (geometry \<times> real \<times> int \<times> int)" where
  "adaptive_polygon_simplify simplify geom target_points max_iterations =
     (let original = total_coords_count geom in
      if original \<le> target_points then Inr (geom, 0, original, original)
      else
        (case search_loop simplify geom target_points max_iterations (initial_state simplify geom) of
           Inl e \<Rightarrow> Inl e
         | Inr st \<Rightarrow>
             (let simplified_n = total_coords_count (simplified st)
              in Inr (simplified st, tolerance st, original, simplified_n))))"

section \<open>Pipeline\<close>

text \<open>
  JSON values as \<^verbatim>\<open>json.load\<close> returns them. A Python \<^verbatim>\<open>dict\<close> keeps its keys in
  insertion order; it is an association list, read with \<^const>\<open>map_of\<close> and written with
  \<^const>\<open>AList.update\<close> (an existing key keeps its place, a new key goes last).
  A Python \<^verbatim>\<open>str\<close> is modelled as the bytes of its UTF-8 encoding.
\<close>

datatype json =
    JNull
  | JBool bool
  | JInt int
  | JReal real
  | JStr string
  | JArr "json list"
  | JObj "(string \<times> json) list"

type_synonym dict = "(string \<times> json) list"

text \<open>
  The \<^verbatim>\<open>"properties"\<close> member of a feature: missing, \<^verbatim>\<open>null\<close>, or an object.
\<close>

datatype properties_member = NoProperties | NullProperties | Properties dict

text \<open>
  A feature as the loop reads it: \<^verbatim>\<open>feature.get("properties", {})\<close> and
  \<^verbatim>\<open>shape(feature["geometry"])\<close>. The geometry is held as the shapely value that
  \<^verbatim>\<open>shape\<close> builds from the member (and, for a written feature, the value that
  \<^verbatim>\<open>mapping\<close> was given); \<^const>\<open>None\<close> is a feature without the member.
\<close>

record feature =
  feature_properties :: properties_member
  feature_geometry :: "geometry option"

text \<open>
  The parsed top-level object \<^verbatim>\<open>data\<close>: the value of \<^verbatim>\<open>data.get("type")\<close>
  (\<^const>\<open>None\<close> when there is no such member), the \<^verbatim>\<open>"features"\<close> member, and the
  two members read when \<^verbatim>\<open>data\<close> is itself taken as the only feature.
\<close>

record geojson =
  data_type :: "json option"
  data_features :: "feature list option"
  data_properties :: properties_member
  data_geometry :: "geometry option"

datatype file_content = ExcelFile "dict list" | JsonFile geojson

type_synonym filesystem = "string \<rightharpoonup> file_content"

text \<open>Python's \<^verbatim>\<open>str\<close> of an integer, as the f-string renders \<^verbatim>\<open>{orig_pts}\<close>.\<close>

fun str_nat :: "nat \<Rightarrow> string" where
  "str_nat n =
     (if n < 10 then [''0123456789'' ! n]
      else str_nat (n div 10) @ [''0123456789'' ! (n mod 10)])"

declare str_nat.simps [simp del]

definition str_int :: "int \<Rightarrow> string" where
  "str_int i = (if i < 0 then ''-'' @ str_nat (nat (- i)) else str_nat (nat i))"

text \<open>
  \<^verbatim>\<open>
  if tol > 0:
      record["simplification_info"] = f"{orig_pts}->{simp_pts} points (tolerance={tol:.0e})"
  else:
      record["simplification_info"] = "Aucune simplification"
  \<close>
  In the source the arrow is U+2192 and the first \<^verbatim>\<open>e\<close> of \<^verbatim>\<open>tolerance\<close> is
  U+00E9; they are the bytes E2 86 92 and C3 A9 here. \<^verbatim>\<open>format_sci\<close> is Python's
  rendering of a float with the format \<^verbatim>\<open>.0e\<close>, a parameter.
\<close>

definition summary :: "(real \<Rightarrow> string) \<Rightarrow> int \<Rightarrow> int \<Rightarrow> real \<Rightarrow> string" where
  "summary format_sci orig_pts simp_pts tol =
     str_int orig_pts @ [CHR 0xE2, CHR 0x86, CHR 0x92] @ str_int simp_pts
       @ '' points (tol'' @ [CHR 0xC3, CHR 0xA9] @ ''rance='' @ format_sci tol @ '')''"

definition simplification_info :: "(real \<Rightarrow> string) \<Rightarrow> int \<Rightarrow> int \<Rightarrow> real \<Rightarrow> string" where
  "simplification_info format_sci orig_pts simp_pts tol =
     (if tol > 0 then summary format_sci orig_pts simp_pts tol
      else ''Aucune simplification'')"

text \<open>
  The head of the body of \<^verbatim>\<open>for feature in features\<close>, up to the choice of \<^verbatim>\<open>polys\<close>:
  \<^verbatim>\<open>
  props = feature.get("properties", {})
  geom = shape(feature["geometry"])
  if isinstance(geom, MultiPolygon):
      polys = list(geom.geoms)
  elif isinstance(geom, Polygon):
      polys = [geom]
  else:
      continue
  \<close>
  \<^verbatim>\<open>props\<close> is \<^const>\<open>None\<close> for a \<^verbatim>\<open>null\<close> member. The result lists, for each
  polygon the inner loop will visit, the polygon with \<^verbatim>\<open>props\<close>; \<^verbatim>\<open>continue\<close> is
  the empty list.
\<close>

definition get_properties :: "properties_member \<Rightarrow> dict option" where
  "get_properties m =
     (case m of NoProperties \<Rightarrow> Some [] | NullProperties \<Rightarrow> None | Properties d \<Rightarrow> Some d)"

definition decompose :: "feature \<Rightarrow> error + (geometry \<times> dict option) list" where
  "decompose feature =
     (let props = get_properties (feature_properties feature) in
      case feature_geometry feature of
        None \<Rightarrow> Inl (KeyError ''geometry'')
      | Some geom \<Rightarrow>
          (case geom of
             MultiPolygon geoms \<Rightarrow> Inr (map (\<lambda>poly. (Polygon poly, props)) geoms)
           | Polygon p \<Rightarrow> Inr [(geom, props)]
           | _ \<Rightarrow> Inr []))"

text \<open>
  The body of \<^verbatim>\<open>for poly in polys\<close>. It returns the feature appended to
  \<^verbatim>\<open>simplified_features\<close> and the record appended to \<^verbatim>\<open>all_records\<close>.
  \<^verbatim>\<open>dumps_feature g\<close> stands for
  \<^verbatim>\<open>json.dumps({"type": "Feature", "geometry": mapping(g)}, ensure_ascii=False, separators=(',', ':'))\<close>.
  \<^verbatim>\<open>props.copy()\<close> raises when \<^verbatim>\<open>props\<close> is \<^verbatim>\<open>None\<close>.
\<close>

definition process_poly ::
  "simplify_primitive \<Rightarrow> (geometry \<Rightarrow> string) \<Rightarrow> (real \<Rightarrow> string) \<Rightarrow>
     geometry \<times> dict option \<Rightarrow> error + (feature \<times> dict)" where
  "process_poly simplify dumps_feature format_sci pp =
     (let poly = fst pp; props = snd pp in
      (case adaptive_polygon_simplify simplify poly 780 400 of
         Inl e \<Rightarrow> Inl e
       | Inr (simplified_geom, tol, orig_pts, simp_pts) \<Rightarrow>
           (let feature_geojson =
                  \<lparr>feature_properties = (case props of None \<Rightarrow> NullProperties | Some d \<Rightarrow> Properties d),
                   feature_geometry = Some simplified_geom\<rparr>
            in (case props of
                  None \<Rightarrow> Inl (AttributeError ''copy'')
                | Some d \<Rightarrow>
                    (let record0 = d;
                         record1 = AList.update ''geometry'' (JStr (dumps_feature simplified_geom)) record0;
                         record2 = AList.update ''simplification_info''
                                     (JStr (simplification_info format_sci orig_pts simp_pts tol)) record1
                     in Inr (feature_geojson, record2))))))"

text \<open>
  The two loops, with the accumulators \<^verbatim>\<open>all_records\<close> and \<^verbatim>\<open>simplified_features\<close>
  passed along. An exception leaves the loops at once.
\<close>

fun polys_loop ::
  "simplify_primitive \<Rightarrow> (geometry \<Rightarrow> string) \<Rightarrow> (real \<Rightarrow> string) \<Rightarrow>
     (geometry \<times> dict option) list \<Rightarrow> dict list \<times> feature list \<Rightarrow> error + (dict list \<times> feature list)" where
  "polys_loop simplify dumps_feature format_sci [] acc = Inr acc"
| "polys_loop simplify dumps_feature format_sci (pp # pps) (all_records, simplified_features) =
     (case process_poly simplify dumps_feature format_sci pp of
        Inl e \<Rightarrow> Inl e
      | Inr (feature_geojson, record) \<Rightarrow>
          polys_loop simplify dumps_feature format_sci pps
            (all_records @ [record], simplified_features @ [feature_geojson]))"

fun features_loop ::
  "simplify_primitive \<Rightarrow> (geometry \<Rightarrow> string) \<Rightarrow> (real \<Rightarrow> string) \<Rightarrow>
     feature list \<Rightarrow> dict list \<times> feature list \<Rightarrow> error + (dict list \<times> feature list)" where
  "features_loop simplify dumps_feature format_sci [] acc = Inr acc"
| "features_loop simplify dumps_feature format_sci (feature # features) acc =
     (case decompose feature of
        Inl e \<Rightarrow> Inl e
      | Inr pps \<Rightarrow>
          (case polys_loop simplify dumps_feature format_sci pps acc of
             Inl e \<Rightarrow> Inl e
           | Inr acc' \<Rightarrow> features_loop simplify dumps_feature format_sci features acc'))"

text \<open>
  The choice of \<^verbatim>\<open>features\<close>:
  \<^verbatim>\<open>
  if data.get("type") == "FeatureCollection":
      features = data["features"]
  elif data.get("type") == "Feature":
      features = [data]
  else:
      raise ValueError("Le fichier GeoJSON ne contient pas une Feature ou FeatureCollection valide.")
  \<close>
\<close>

definition invalid_input_kind :: error where
  "invalid_input_kind =
     ValueError ''Le fichier GeoJSON ne contient pas une Feature ou FeatureCollection valide.''"

definition select_features :: "geojson \<Rightarrow> error + feature list" where
  "select_features data =
     (if data_type data = Some (JStr ''FeatureCollection'') then
        (case data_features data of
           None \<Rightarrow> Inl (KeyError ''features'')
         | Some features \<Rightarrow> Inr features)
      else if data_type data = Some (JStr ''Feature'') then
        Inr [\<lparr>feature_properties = data_properties data, feature_geometry = data_geometry data\<rparr>]
      else Inl invalid_input_kind)"

text \<open>
  The whole run, from the parsed \<^verbatim>\<open>data\<close> (reading and parsing the input file is
  \<^verbatim>\<open>open\<close> and \<^verbatim>\<open>json.load\<close>). The two files are written at the end, the table
  first; an exception before that leaves the file system as it was. The result is the
  exception raised, if any, and the file system after the run. The writes themselves are
  taken to succeed.
\<close>

definition geojson_to_excel_with_exploded_multipolygons ::
  "simplify_primitive \<Rightarrow> (geometry \<Rightarrow> string) \<Rightarrow> (real \<Rightarrow> string) \<Rightarrow>
     geojson \<Rightarrow> string \<Rightarrow> string \<Rightarrow> filesystem \<Rightarrow> error option \<times> filesystem" where
  "geojson_to_excel_with_exploded_multipolygons simplify dumps_feature format_sci
       data output_excel_path output_geojson_path fs =
     (case select_features data of
        Inl e \<Rightarrow> (Some e, fs)
      | Inr features \<Rightarrow>
          (case features_loop simplify dumps_feature format_sci features ([], []) of
             Inl e \<Rightarrow> (Some e, fs)
           | Inr (all_records, simplified_features) \<Rightarrow>
               (let fs1 = fs(output_excel_path \<mapsto> ExcelFile all_records);
                    final_geojson =
                      \<lparr>data_type = Some (JStr ''FeatureCollection''),
                       data_features = Some simplified_features,
                       data_properties = NoProperties,
                       data_geometry = None\<rparr>;
                    fs2 = fs1(output_geojson_path \<mapsto> JsonFile final_geojson)
                in (None, fs2))))"


section \<open>Sample inputs\<close>

text \<open>
  Closed rings used to run the functions: a square, a square with a triangular hole, a
  convex ring on the parabola \<open>y = x\<^sup>2\<close> with \<open>n + 1\<close> coordinates, the same ring with
  201 more vertices on its straight edge from \<open>(0, 0)\<close> to \<open>(1, 1)\<close>, and a square whose
  sides carry 199 more vertices each.
\<close>

definition unit_square :: geometry where
  "unit_square = Polygon \<lparr>exterior = [(0, 0), (1, 0), (1, 1), (0, 1), (0, 0)], interiors = []\<rparr>"

definition holed_square :: geometry where
  "holed_square =
     Polygon \<lparr>exterior = [(0, 0), (4, 0), (4, 4), (0, 4), (0, 0)],
              interiors = [ [(1, 1), (1, 2), (2, 1), (1, 1)] ]\<rparr>"

definition parabola_ring :: "nat \<Rightarrow> ring" where
  "parabola_ring n = map (\<lambda>i. (real i, real (i * i))) [0..<n] @ [(0, 0)]"


definition parabola_polygon :: geometry where
  "parabola_polygon = Polygon \<lparr>exterior = parabola_ring 799, interiors = []\<rparr>"

definition padded_parabola :: geometry where
  "padded_parabola =
     Polygon \<lparr>exterior =
                [(0, 0)] @ map (\<lambda>k. (real k / 202, real k / 202)) [1..<202]
                  @ map (\<lambda>i. (real i, real (i * i))) [1..<799] @ [(0, 0)],
              interiors = []\<rparr>"

definition dense_square :: geometry where
  "dense_square =
     Polygon \<lparr>exterior =
                map (\<lambda>k. (real k / 200, 0)) [0..<200] @ map (\<lambda>k. (1, real k / 200)) [0..<200]
                  @ map (\<lambda>k. (1 - real k / 200, 1)) [0..<200] @ map (\<lambda>k. (0, 1 - real k / 200)) [0..<200]
                  @ [(0, 0)],
              interiors = []\<rparr>"

text \<open>
  Two simplification primitives to run the search with: one that finds no vertex to
  remove, and one that, at a positive tolerance, turns the geometry \<open>dense\<close> into
  \<open>sparse\<close> (the same ring without the vertices that lie on a straight edge) and
  leaves any other geometry as it is.
\<close>

definition keep_all :: simplify_primitive where
  "keep_all geom tol preserve_topology = geom"

definition replaces :: "geometry \<Rightarrow> geometry \<Rightarrow> simplify_primitive" where
  "replaces dense sparse geom tol preserve_topology =
     (if geom = dense \<and> 0 < tol then sparse else geom)"

definition sample_props :: dict where
  "sample_props = [(''name'', JStr ''parcelle'')]"




definition sample_multipolygon :: feature where
  "sample_multipolygon =
     \<lparr>feature_properties = Properties sample_props,
      feature_geometry =
        Some (MultiPolygon [\<lparr>exterior = [(0, 0), (1, 0), (1, 1), (0, 1), (0, 0)], interiors = []\<rparr>,
                            \<lparr>exterior = [(2, 2), (3, 2), (3, 3), (2, 2)], interiors = []\<rparr>])\<rparr>"

section \<open>Unfolding the search\<close>

lemma search_loop_step:
  "loop_condition mi st \<Longrightarrow> loop_body simplify geom tp st = Inr st' \<Longrightarrow>
   search_loop simplify geom tp mi st = search_loop simplify geom tp mi st'"
  by (subst search_loop.simps) simp

lemma search_loop_stop:
  "\<not> loop_condition mi st \<Longrightarrow> search_loop simplify geom tp mi st = Inr st"
  by (subst search_loop.simps) simp

lemma search_trace_step:
  "loop_condition mi st \<Longrightarrow> loop_body simplify geom tp st = Inr st' \<Longrightarrow>
   search_trace simplify geom tp mi st = st # search_trace simplify geom tp mi st'"
  by (subst search_trace.simps) simp

lemma search_trace_stop:
  "\<not> loop_condition mi st \<Longrightarrow> search_trace simplify geom tp mi st = [st]"
  by (subst search_trace.simps) simp

lemma search_trace_nth_0: "search_trace simplify geom tp mi st ! 0 = st"
  by (subst search_trace.simps) simp

lemma initial_state_simps [simp]:
  "simplified (initial_state simplify geom) = simplify geom (1 / 10 ^ 10) True"
  "tolerance (initial_state simplify geom) = 1 / 10 ^ 10"
  "iteration (initial_state simplify geom) = 0"
  by (simp_all add: initial_state_def Let_def)

lemma total_coords_count_nonneg: "0 \<le> total_coords_count geom"
  by (cases geom) (auto intro!: add_nonneg_nonneg sum_list_nonneg)



text \<open>
  With \<^verbatim>\<open>0 < target_points \<le> 780\<close> the ratio is at least 1 whenever the body runs,
  so each pass multiplies the tolerance by a factor between 1 and 2.
\<close>

lemma loop_body_tolerance_step:
  assumes "0 < target_points" and "target_points \<le> 780" and "0 < tolerance st"
    and "loop_condition max_iterations st"
    and "loop_body simplify geom target_points st = Inr st'"
  shows "tolerance st \<le> tolerance st' \<and> tolerance st' \<le> 2 * tolerance st"
proof -
  let ?ratio = "real_of_int (total_coords_count (simplified st)) / real_of_int target_points"
  have "real_of_int target_points < real_of_int (total_coords_count (simplified st))"
    using assms(2,4) by (simp add: loop_condition_def)
  then have "1 \<le> ?ratio"
    using assms(1) by (simp add: divide_simps)
  then have "1 \<le> min ?ratio 2" and "min ?ratio 2 \<le> 2"
    by simp_all
  moreover have "tolerance st' = tolerance st * min ?ratio 2"
    using assms(1,5) by (auto simp: loop_body_def Let_def split: if_splits)
  ultimately show ?thesis
    using assms(3) by (simp add: mult_le_cancel_left1 mult.commute [of 2])
qed

lemma search_trace_tolerance_steps:
  assumes "0 < target_points" and "target_points \<le> 780" and "0 < tolerance st"
    and "Suc i < length (search_trace simplify geom target_points max_iterations st)"
  shows "tolerance (search_trace simplify geom target_points max_iterations st ! i)
           \<le> tolerance (search_trace simplify geom target_points max_iterations st ! Suc i)
       \<and> tolerance (search_trace simplify geom target_points max_iterations st ! Suc i)
           \<le> 2 * tolerance (search_trace simplify geom target_points max_iterations st ! i)"
  using assms
proof (induction simplify geom target_points max_iterations st arbitrary: i rule: search_trace.induct)
  case (1 simplify geom target_points max_iterations st)
  have cond: "loop_condition max_iterations st"
    using "1.prems"(4) by (subst (asm) search_trace.simps) (simp split: if_splits)
  obtain st' where body: "loop_body simplify geom target_points st = Inr st'"
    using "1.prems"(4) cond by (subst (asm) search_trace.simps) (auto split: sum.splits)
  note unfold = search_trace_step [OF cond body]
  note step = loop_body_tolerance_step [OF "1.prems"(1,2,3) cond body]
  show ?case
  proof (cases i)
    case 0
    with step show ?thesis by (simp add: unfold search_trace_nth_0)
  next
    case (Suc j)
    have "0 < tolerance st'" using step "1.prems"(3) by linarith
    moreover have "Suc j < length (search_trace simplify geom target_points max_iterations st')"
      using "1.prems"(4) Suc by (simp add: unfold)
    ultimately show ?thesis
      using "1.IH" [OF cond body "1.prems"(1,2)] Suc by (simp add: unfold)
  qed
qed

text \<open>
  With \<^verbatim>\<open>0 < target_points \<le> 780\<close> the loop returns, and the tolerance it returns is not
  below the one it started from.
\<close>

lemma search_loop_lower_bound:
  assumes "0 < target_points" and "target_points \<le> 780"
    and "0 < bound" and "bound \<le> tolerance st"
  shows "\<exists>st'. search_loop simplify geom target_points max_iterations st = Inr st'
           \<and> bound \<le> tolerance st'"
  using assms
proof (induction simplify geom target_points max_iterations st rule: search_loop.induct)
  case (1 simplify geom target_points max_iterations st)
  show ?case
  proof (cases "loop_condition max_iterations st")
    case False
    with "1.prems" show ?thesis by (simp add: search_loop_stop)
  next
    case True
    have pos: "0 < tolerance st"
      using "1.prems"(3,4) by linarith
    have "0 < real_of_int (total_coords_count (simplified st)) / real_of_int target_points"
      using True "1.prems"(1) by (simp add: loop_condition_def)
    with pos have "\<not> tolerance st
        * min (real_of_int (total_coords_count (simplified st)) / real_of_int target_points) 2 < 0"
      by (simp add: not_less)
    then obtain st' where body: "loop_body simplify geom target_points st = Inr st'"
      using "1.prems"(1) by (simp add: loop_body_def Let_def)
    from loop_body_tolerance_step [OF "1.prems"(1,2) pos True body] "1.prems"(4)
    have "bound \<le> tolerance st'" by linarith
    from "1.IH" [OF True body "1.prems"(1,2,3) this]
    show ?thesis by (simp add: search_loop_step [OF True body])
  qed
qed



section \<open>The pipeline's call of the simplifier\<close>

text \<open>
  The pipeline calls the simplifier with the defaults 780 and 400: the call returns, and
  its tolerance is 0 or positive.
\<close>

lemma default_call_returns:
  "\<exists>simplified_geom tol orig_pts simp_pts.
     adaptive_polygon_simplify simplify poly 780 400 = Inr (simplified_geom, tol, orig_pts, simp_pts)
     \<and> 0 \<le> tol"
proof (cases "total_coords_count poly \<le> 780")
  case True
  then show ?thesis by (simp add: adaptive_polygon_simplify_def Let_def)
next
  case False
  obtain st where "search_loop simplify poly 780 400 (initial_state simplify poly) = Inr st"
    and "1 / 10 ^ 10 \<le> tolerance st"
    using search_loop_lower_bound [of 780 "1 / 10 ^ 10" "initial_state simplify poly" simplify poly 400]
    by auto
  moreover from this have "0 \<le> tolerance st"
    by (simp add: order_trans [of 0 "1 / 10 ^ 10"])
  ultimately show ?thesis
    using False by (simp add: adaptive_polygon_simplify_def Let_def)
qed



lemma process_poly_error:
  "process_poly simplify dumps_feature format_sci pp = Inl e \<Longrightarrow> e = AttributeError ''copy''"
  using default_call_returns [of simplify "fst pp"]
  by (auto simp: process_poly_def Let_def split: option.splits)

section \<open>The loops of the pipeline\<close>


lemma polys_loop_error:
  "polys_loop simplify dumps_feature format_sci pps acc = Inl e \<Longrightarrow> e = AttributeError ''copy''"
proof (induction pps arbitrary: acc)
  case Nil
  then show ?case by simp
next
  case (Cons pp pps)
  obtain all_records simplified_features where acc: "acc = (all_records, simplified_features)"
    by (cases acc)
  from Cons.prems show ?case
    unfolding acc
    by (auto split: sum.splits dest: process_poly_error Cons.IH)
qed

lemma decompose_error: "decompose feature = Inl e \<Longrightarrow> e = KeyError ''geometry''"
  by (auto simp: decompose_def Let_def split: option.splits geometry.splits)

lemma features_loop_error:
  "features_loop simplify dumps_feature format_sci features acc = Inl e \<Longrightarrow>
   e = AttributeError ''copy'' \<or> e = KeyError ''geometry''"
proof (induction features arbitrary: acc)
  case Nil
  then show ?case by simp
next
  case (Cons feature features)
  from Cons.prems show ?case
    by (auto split: sum.splits dest: decompose_error polys_loop_error Cons.IH)
qed


section \<open>The sample inputs, evaluated\<close>

lemma count_unit_square: "total_coords_count unit_square = 5"
  by (simp add: unit_square_def)


lemma count_parabola_polygon: "total_coords_count parabola_polygon = 800"
  by (simp add: parabola_polygon_def parabola_ring_def)

lemma count_padded_parabola: "total_coords_count padded_parabola = 1001"
  by (simp add: padded_parabola_def)

lemma count_dense_square: "total_coords_count dense_square = 801"
  by (simp add: dense_square_def)

lemma replaces_dense [simp]: "0 < tol \<Longrightarrow> replaces dense sparse dense tol b = sparse"
  by (simp add: replaces_def)

lemma simplify_dense_square:
  "adaptive_polygon_simplify (replaces dense_square unit_square) dense_square 780 400
     = Inr (unit_square, 1 / 10 ^ 10, 801, 5)"
  by (simp add: adaptive_polygon_simplify_def count_dense_square count_unit_square
      search_loop_stop loop_condition_def)





section \<open>Coordinate counter: claims\<close>

text \<open>
  \<^bold>\<open>C5.\<close> For a Polygon, \<^verbatim>\<open>total_coords_count\<close> returns the length of the exterior
  ring's coordinate sequence plus the sum of the lengths of the interior rings'
  coordinate sequences; for any geometry that is not a Polygon it returns 0; the result
  is never negative.
\<close>

theorem total_coords_count_spec:
  "total_coords_count (Polygon p)
     = int (length (exterior p)) + (\<Sum>hole\<leftarrow>interiors p. int (length hole))
   \<and> ((\<forall>q. geom \<noteq> Polygon q) \<longrightarrow> total_coords_count geom = 0)
   \<and> 0 \<le> total_coords_count geom"
proof (intro conjI impI)
  show "total_coords_count (Polygon p)
     = int (length (exterior p)) + (\<Sum>hole\<leftarrow>interiors p. int (length hole))"
    by simp
  show "total_coords_count geom = 0" if "\<forall>q. geom \<noteq> Polygon q"
    using that by (cases geom) simp_all
  show "0 \<le> total_coords_count geom"
    by (rule total_coords_count_nonneg)
qed

theorem total_coords_count_spec_witness:
  "total_coords_count holed_square = 9
   \<and> (\<forall>q. LineString [(0, 0), (1, 1)] \<noteq> Polygon q)
   \<and> total_coords_count (LineString [(0, 0), (1, 1)]) = 0"
  using total_coords_count_spec
    [of "\<lparr>exterior = [(0, 0), (4, 0), (4, 4), (0, 4), (0, 0)],
          interiors = [ [(1, 1), (1, 2), (2, 1), (1, 1)] ]\<rparr>" "LineString [(0, 0), (1, 1)]"]
  by (simp add: holed_square_def)

section \<open>Adaptive simplifier: claims\<close>

text \<open>
  \<^bold>\<open>C9.\<close> A geometry that is not a Polygon (a MultiPolygon too), passed to
  \<^verbatim>\<open>adaptive_polygon_simplify\<close> with \<^verbatim>\<open>target_points \<ge> 0\<close>, takes the fast path: it
  comes back unchanged, with tolerance 0 and both counts 0.
\<close>

theorem non_polygon_fast_path:
  assumes "\<forall>q. geom \<noteq> Polygon q" and "0 \<le> target_points"
  shows "adaptive_polygon_simplify simplify geom target_points max_iterations = Inr (geom, 0, 0, 0)"
proof -
  have "total_coords_count geom = 0"
    using assms(1) by (cases geom) simp_all
  with assms(2) show ?thesis
    by (simp add: adaptive_polygon_simplify_def)
qed

theorem non_polygon_fast_path_witness:
  "(\<forall>q. MultiPolygon [\<lparr>exterior = parabola_ring 780, interiors = []\<rparr>] \<noteq> Polygon q) \<and> (0::int) \<le> 0
   \<and> adaptive_polygon_simplify keep_all (MultiPolygon [\<lparr>exterior = parabola_ring 780, interiors = []\<rparr>]) 0 400
       = Inr (MultiPolygon [\<lparr>exterior = parabola_ring 780, interiors = []\<rparr>], 0, 0, 0)"
  using non_polygon_fast_path
    [of "MultiPolygon [\<lparr>exterior = parabola_ring 780, interiors = []\<rparr>]" 0 keep_all 400]
  by simp

text \<open>
  \<^bold>\<open>C3.\<close> When the count of the input is at most \<^verbatim>\<open>target_points\<close>, the input comes
  back unchanged with tolerance 0 and the final count equal to the original count. So
  when a call has returned a geometry whose count is at most \<^verbatim>\<open>target_points\<close>, the
  call on that geometry returns it again, with tolerance 0.
\<close>

theorem fast_path_no_op:
  "(total_coords_count geom \<le> target_points \<longrightarrow>
      adaptive_polygon_simplify simplify geom target_points max_iterations
        = Inr (geom, 0, total_coords_count geom, total_coords_count geom))
   \<and> (adaptive_polygon_simplify simplify geom target_points max_iterations
          = Inr (result, tol, original, final)
        \<and> total_coords_count result \<le> target_points \<longrightarrow>
      adaptive_polygon_simplify simplify result target_points max_iterations
        = Inr (result, 0, final, final))"
  by (auto simp: adaptive_polygon_simplify_def Let_def split: if_splits sum.splits)

theorem fast_path_no_op_witness:
  "total_coords_count unit_square \<le> 780
   \<and> adaptive_polygon_simplify (replaces dense_square unit_square) unit_square 780 400
       = Inr (unit_square, 0, 5, 5)
   \<and> adaptive_polygon_simplify (replaces dense_square unit_square) dense_square 780 400
       = Inr (unit_square, 1 / 10 ^ 10, 801, 5)"
proof -
  have small: "total_coords_count unit_square \<le> 780"
    by (simp add: count_unit_square)
  from fast_path_no_op [of unit_square 780 "replaces dense_square unit_square" 400]
    fast_path_no_op [of dense_square 780 "replaces dense_square unit_square" 400
                        unit_square "1 / 10 ^ 10" 801 5]
    small simplify_dense_square
  show ?thesis by (simp add: count_unit_square)
qed








text \<open>
  \<^bold>\<open>C2\<close> says that the tolerance never decreases from one pass to the next, as the
  comments of the source do (the tolerance is raised step by step, by a factor of at most
  2). The loop goes on while the count exceeds 780, but the factor is the count divided by
  \<^verbatim>\<open>target_points\<close>: with \<^verbatim>\<open>target_points = 1000\<close> and a polygon of 1001 coordinates
  that the primitive brings to 800, the factor is 0.8 and the tolerance shrinks in every
  pass.
\<close>

theorem tolerance_shrinks_above_780:
  "total_coords_count padded_parabola = 1001
   \<and> map tolerance (search_trace (replaces padded_parabola parabola_polygon) padded_parabola 1000 2
          (initial_state (replaces padded_parabola parabola_polygon) padded_parabola))
       = [1 / 10 ^ 10, 8 / 10 ^ 11, 64 / 10 ^ 12]
   \<and> adaptive_polygon_simplify (replaces padded_parabola parabola_polygon) padded_parabola 1000 2
       = Inr (parabola_polygon, 64 / 10 ^ 12, 1001, 800)"
  by (simp add: count_padded_parabola count_parabola_polygon adaptive_polygon_simplify_def
      search_trace_step search_trace_stop search_loop_step search_loop_stop
      loop_condition_def loop_body_def Let_def)

section \<open>Pipeline: claims\<close>

text \<open>
  \<^bold>\<open>C6.\<close> A feature whose geometry is a MultiPolygon of N parts gives exactly N pairs of
  a polygon and the feature's properties, the polygons being the parts in order; a
  feature whose geometry is a Polygon gives exactly one pair; a feature with any other
  kind of geometry gives no pair and no error, so that a run on such a feature writes a
  table without rows and a collection without features.
\<close>

theorem decompose_spec:
  "(feature_geometry feature = Some (MultiPolygon geoms) \<longrightarrow>
      (\<exists>pairs. decompose feature = Inr pairs
         \<and> length pairs = length geoms
         \<and> map fst pairs = map Polygon geoms
         \<and> (\<forall>pp \<in> set pairs. snd pp = get_properties (feature_properties feature))))
   \<and> (feature_geometry feature = Some (Polygon p) \<longrightarrow>
        decompose feature = Inr [(Polygon p, get_properties (feature_properties feature))])
   \<and> (feature_geometry feature = Some geom \<and> (\<forall>q. geom \<noteq> Polygon q) \<and> (\<forall>qs. geom \<noteq> MultiPolygon qs) \<longrightarrow>
        decompose feature = Inr []
        \<and> features_loop simplify dumps_feature format_sci [feature] acc = Inr acc
        \<and> geojson_to_excel_with_exploded_multipolygons simplify dumps_feature format_sci
              \<lparr>data_type = Some (JStr ''Feature''), data_features = None,
               data_properties = feature_properties feature, data_geometry = Some geom\<rparr>
              output_excel_path output_geojson_path fs
            = (None, fs(output_excel_path \<mapsto> ExcelFile [],
                        output_geojson_path \<mapsto>
                          JsonFile \<lparr>data_type = Some (JStr ''FeatureCollection''),
                                    data_features = Some [], data_properties = NoProperties,
                                    data_geometry = None\<rparr>)))"
proof (intro conjI impI)
  assume "feature_geometry feature = Some (MultiPolygon geoms)"
  then have "decompose feature
      = Inr (map (\<lambda>poly. (Polygon poly, get_properties (feature_properties feature))) geoms)"
    by (simp add: decompose_def)
  then show "\<exists>pairs. decompose feature = Inr pairs
         \<and> length pairs = length geoms
         \<and> map fst pairs = map Polygon geoms
         \<and> (\<forall>pp \<in> set pairs. snd pp = get_properties (feature_properties feature))"
    by (auto simp: comp_def)
next
  assume "feature_geometry feature = Some (Polygon p)"
  then show "decompose feature = Inr [(Polygon p, get_properties (feature_properties feature))]"
    by (simp add: decompose_def)
next
  assume other: "feature_geometry feature = Some geom
                   \<and> (\<forall>q. geom \<noteq> Polygon q) \<and> (\<forall>qs. geom \<noteq> MultiPolygon qs)"
  then show dec: "decompose feature = Inr []"
    by (cases geom) (simp_all add: decompose_def)
  then show "features_loop simplify dumps_feature format_sci [feature] acc = Inr acc"
    by simp
  have "decompose \<lparr>feature_properties = feature_properties feature, feature_geometry = Some geom\<rparr> = Inr []"
    using other by (cases geom) (simp_all add: decompose_def)
  then show "geojson_to_excel_with_exploded_multipolygons simplify dumps_feature format_sci
              \<lparr>data_type = Some (JStr ''Feature''), data_features = None,
               data_properties = feature_properties feature, data_geometry = Some geom\<rparr>
              output_excel_path output_geojson_path fs
            = (None, fs(output_excel_path \<mapsto> ExcelFile [],
                        output_geojson_path \<mapsto>
                          JsonFile \<lparr>data_type = Some (JStr ''FeatureCollection''),
                                    data_features = Some [], data_properties = NoProperties,
                                    data_geometry = None\<rparr>))"
    by (simp add: geojson_to_excel_with_exploded_multipolygons_def select_features_def)
qed

theorem decompose_spec_witness:
  "decompose sample_multipolygon
     = Inr [(Polygon \<lparr>exterior = [(0, 0), (1, 0), (1, 1), (0, 1), (0, 0)], interiors = []\<rparr>, Some sample_props),
            (Polygon \<lparr>exterior = [(2, 2), (3, 2), (3, 3), (2, 2)], interiors = []\<rparr>, Some sample_props)]
   \<and> decompose \<lparr>feature_properties = NoProperties, feature_geometry = Some unit_square\<rparr>
       = Inr [(unit_square, Some [])]
   \<and> geojson_to_excel_with_exploded_multipolygons keep_all (\<lambda>g. ''feature'') (\<lambda>t. ''1e-10'')
        \<lparr>data_type = Some (JStr ''Feature''), data_features = None,
         data_properties = NoProperties, data_geometry = Some (LineString [(0, 0), (1, 1)])\<rparr>
        ''out.xlsx'' ''out.geojson'' Map.empty
       = (None, [''out.xlsx'' \<mapsto> ExcelFile [],
                 ''out.geojson'' \<mapsto>
                   JsonFile \<lparr>data_type = Some (JStr ''FeatureCollection''),
                             data_features = Some [], data_properties = NoProperties,
                             data_geometry = None\<rparr>])"
proof -
  have multi: "decompose sample_multipolygon
     = Inr [(Polygon \<lparr>exterior = [(0, 0), (1, 0), (1, 1), (0, 1), (0, 0)], interiors = []\<rparr>, Some sample_props),
            (Polygon \<lparr>exterior = [(2, 2), (3, 2), (3, 3), (2, 2)], interiors = []\<rparr>, Some sample_props)]"
  proof -
    have geom: "feature_geometry sample_multipolygon
        = Some (MultiPolygon [\<lparr>exterior = [(0, 0), (1, 0), (1, 1), (0, 1), (0, 0)], interiors = []\<rparr>,
                              \<lparr>exterior = [(2, 2), (3, 2), (3, 3), (2, 2)], interiors = []\<rparr>])"
      by (simp add: sample_multipolygon_def)
    have props: "get_properties (feature_properties sample_multipolygon) = Some sample_props"
      by (simp add: sample_multipolygon_def get_properties_def)
    from decompose_spec
      [where feature = sample_multipolygon
         and geoms = "[\<lparr>exterior = [(0, 0), (1, 0), (1, 1), (0, 1), (0, 0)], interiors = []\<rparr>,
                       \<lparr>exterior = [(2, 2), (3, 2), (3, 3), (2, 2)], interiors = []\<rparr>]",
       THEN conjunct1, rule_format, OF geom]
    obtain pairs where dec: "decompose sample_multipolygon = Inr pairs"
      and len: "length pairs = Suc (Suc 0)"
      and firsts: "map fst pairs
        = [Polygon \<lparr>exterior = [(0, 0), (1, 0), (1, 1), (0, 1), (0, 0)], interiors = []\<rparr>,
           Polygon \<lparr>exterior = [(2, 2), (3, 2), (3, 3), (2, 2)], interiors = []\<rparr>]"
      and seconds: "\<forall>pp \<in> set pairs. snd pp = Some sample_props"
      unfolding props by auto
    from len obtain a b where ab: "pairs = [a, b]"
      by (auto simp: length_Suc_conv)
    from firsts seconds have
      "a = (Polygon \<lparr>exterior = [(0, 0), (1, 0), (1, 1), (0, 1), (0, 0)], interiors = []\<rparr>, Some sample_props)"
      "b = (Polygon \<lparr>exterior = [(2, 2), (3, 2), (3, 3), (2, 2)], interiors = []\<rparr>, Some sample_props)"
      unfolding ab by (simp_all add: prod_eq_iff)
    with dec ab show ?thesis by simp
  qed
  have single: "decompose \<lparr>feature_properties = NoProperties, feature_geometry = Some unit_square\<rparr>
       = Inr [(unit_square, Some [])]"
    using decompose_spec
      [where feature = "\<lparr>feature_properties = NoProperties, feature_geometry = Some unit_square\<rparr>"
         and p = "\<lparr>exterior = [(0, 0), (1, 0), (1, 1), (0, 1), (0, 0)], interiors = []\<rparr>"]
    by (simp add: unit_square_def get_properties_def)
  have line: "geojson_to_excel_with_exploded_multipolygons keep_all (\<lambda>g. ''feature'') (\<lambda>t. ''1e-10'')
        \<lparr>data_type = Some (JStr ''Feature''), data_features = None,
         data_properties = NoProperties, data_geometry = Some (LineString [(0, 0), (1, 1)])\<rparr>
        ''out.xlsx'' ''out.geojson'' Map.empty
       = (None, [''out.xlsx'' \<mapsto> ExcelFile [],
                 ''out.geojson'' \<mapsto>
                   JsonFile \<lparr>data_type = Some (JStr ''FeatureCollection''),
                             data_features = Some [], data_properties = NoProperties,
                             data_geometry = None\<rparr>])"
    using decompose_spec
      [where feature = "\<lparr>feature_properties = NoProperties,
                          feature_geometry = Some (LineString [(0, 0), (1, 1)])\<rparr>"
         and geom = "LineString [(0, 0), (1, 1)]" and simplify = keep_all
         and dumps_feature = "\<lambda>g. ''feature''" and format_sci = "\<lambda>t. ''1e-10''"
         and output_excel_path = "''out.xlsx''" and output_geojson_path = "''out.geojson''"
         and fs = Map.empty]
    by simp
  from multi single line show ?thesis by simp
qed

text \<open>
  \<^bold>\<open>C7.\<close> A run raises the invalid-input error exactly when the \<^verbatim>\<open>type\<close> member of the
  parsed top-level object is neither \<^verbatim>\<open>"Feature"\<close> nor \<^verbatim>\<open>"FeatureCollection"\<close>; the run
  then ends with the file system as it was, nothing written.
\<close>

theorem invalid_input_kind_iff:
  "(fst (geojson_to_excel_with_exploded_multipolygons simplify dumps_feature format_sci
           data output_excel_path output_geojson_path fs) = Some invalid_input_kind
      \<longleftrightarrow> data_type data \<noteq> Some (JStr ''FeatureCollection'') \<and> data_type data \<noteq> Some (JStr ''Feature''))
   \<and> (data_type data \<noteq> Some (JStr ''FeatureCollection'') \<and> data_type data \<noteq> Some (JStr ''Feature'') \<longrightarrow>
        geojson_to_excel_with_exploded_multipolygons simplify dumps_feature format_sci
           data output_excel_path output_geojson_path fs = (Some invalid_input_kind, fs))"
proof -
  have neither: "geojson_to_excel_with_exploded_multipolygons simplify dumps_feature format_sci
           data output_excel_path output_geojson_path fs = (Some invalid_input_kind, fs)"
    if "data_type data \<noteq> Some (JStr ''FeatureCollection'') \<and> data_type data \<noteq> Some (JStr ''Feature'')"
    using that by (simp add: geojson_to_excel_with_exploded_multipolygons_def select_features_def)
  have loop: "e \<noteq> invalid_input_kind"
    if "features_loop simplify dumps_feature format_sci features ([], []) = Inl e" for features e
    using features_loop_error [OF that] by (auto simp: invalid_input_kind_def)
  have other: "fst (geojson_to_excel_with_exploded_multipolygons simplify dumps_feature format_sci
           data output_excel_path output_geojson_path fs) \<noteq> Some invalid_input_kind"
    if kind: "data_type data = Some (JStr ''FeatureCollection'') \<or> data_type data = Some (JStr ''Feature'')"
  proof (cases "select_features data")
    case (Inl e)
    with kind have "e = KeyError ''features''"
      by (auto simp: select_features_def split: option.splits if_splits)
    with Inl show ?thesis
      by (simp add: geojson_to_excel_with_exploded_multipolygons_def invalid_input_kind_def)
  next
    case (Inr features)
    show ?thesis
    proof (cases "features_loop simplify dumps_feature format_sci features ([], [])")
      case (Inl e)
      with Inr loop [OF Inl] show ?thesis
        by (simp add: geojson_to_excel_with_exploded_multipolygons_def)
    next
      case Inr': (Inr acc)
      with Inr show ?thesis
        by (simp add: geojson_to_excel_with_exploded_multipolygons_def Let_def split: prod.splits)
    qed
  qed
  from neither other show ?thesis by auto
qed

theorem invalid_input_kind_iff_witness:
  "Some (JStr ''Topology'') \<noteq> Some (JStr ''FeatureCollection'')
   \<and> Some (JStr ''Topology'') \<noteq> Some (JStr ''Feature'')
   \<and> geojson_to_excel_with_exploded_multipolygons keep_all (\<lambda>g. ''feature'') (\<lambda>t. ''1e-10'')
        \<lparr>data_type = Some (JStr ''Topology''), data_features = Some [],
         data_properties = NoProperties, data_geometry = None\<rparr>
        ''out.xlsx'' ''out.geojson'' Map.empty
       = (Some invalid_input_kind, Map.empty)"
  using invalid_input_kind_iff
    [of keep_all "\<lambda>g. ''feature''" "\<lambda>t. ''1e-10''"
        "\<lparr>data_type = Some (JStr ''Topology''), data_features = Some [],
          data_properties = NoProperties, data_geometry = None\<rparr>"
        "''out.xlsx''" "''out.geojson''" Map.empty]
  by simp



end
